theory Spec2Isabelle
  imports Main "HOL-Library.Sublist"
begin

section \<open>Python values and exceptions\<close>

text \<open>
  The fields of a \<open>CauseSleuth\<close> are dynamically typed. The values that reach them are
  drawn from one universe: \<open>None\<close>, integers (\<open>bool\<close> is a subclass of \<open>int\<close> and
  counts as one), strings, tuples, hint signs, callables (functions and classes,
  identified by a name) and any other, non-callable object (identified by a name).
\<close>

datatype pyobj =
    PyNone
  | PyInt int
  | PyStr string
  | PyTuple "pyobj list"
  | PySign string
  | PyCallable string
  | PyObject string

text \<open>
  Exceptions are values. \<open>Raised\<close> is any exception raised by a collaborator
  of the module (the normaliser, the sign and argument getters, a diagnoser).
\<close>

datatype error =
    BeartypeCallHintPepRaiseException string
  | AssertionError string
  | AttributeError string
  | TypeError
  | Raised string

text \<open>The builtin tests used by the assertions of \<open>__init__\<close> and by the dispatcher.\<close>

fun callable :: "pyobj \<Rightarrow> bool" where
  "callable (PyCallable _) = True"
| "callable _ = False"

fun isinstance_str :: "pyobj \<Rightarrow> bool" where
  "isinstance_str (PyStr _) = True"
| "isinstance_str _ = False"

text \<open>\<open>isinstance(x, NoneTypeOr[int])\<close>, that is \<open>isinstance(x, (NoneType, int))\<close>.\<close>

fun isinstance_NoneTypeOr_int :: "pyobj \<Rightarrow> bool" where
  "isinstance_NoneTypeOr_int PyNone = True"
| "isinstance_NoneTypeOr_int (PyInt _) = True"
| "isinstance_NoneTypeOr_int _ = False"

fun isinstance_tuple :: "pyobj \<Rightarrow> bool" where
  "isinstance_tuple (PyTuple _) = True"
| "isinstance_tuple _ = False"

section \<open>The sleuth object and the heap\<close>

text \<open>
  One field per entry of \<open>__slots__\<close>. \<open>hint_priv\<close> is the slot \<open>_hint\<close>: it is the
  only slot that a method reads while it may still be unassigned (\<open>None\<close> here is the
  unassigned slot, \<open>Some PyNone\<close> is the hint \<open>None\<close>). \<open>hint_sign\<close> and \<open>hint_childs\<close>
  hold \<open>PyNone\<close>, or the sign and the tuple of arguments.
\<close>

record CauseSleuth =
  cause_indent :: pyobj
  exception_prefix :: pyobj
  func :: pyobj
  hint_sign :: pyobj
  hint_childs :: pyobj
  pith :: pyobj
  random_int :: pyobj
  hint_priv :: "pyobj option"

text \<open>
  Sleuths are mutable objects with an identity: the heap lists the objects allocated so
  far and an address is an index into it. A method receives the heap and the address of
  \<open>self\<close> (a live object: \<open>self < length h\<close>) and returns the heap it leaves.
\<close>

type_synonym addr = nat
type_synonym heap = "CauseSleuth list"

text \<open>A getter function \<open>get_cause_or_none_*\<close>: called with a sleuth, returns the cause
  or \<open>None\<close>, or raises; it may allocate further sleuths.\<close>

type_synonym getter = "heap \<Rightarrow> addr \<Rightarrow> (error + string option) \<times> heap"

definition slots :: "string list" where
  "slots = [''cause_indent'', ''exception_prefix'', ''func'', ''hint_sign'',
            ''hint_childs'', ''pith'', ''random_int'', ''_hint'']"

definition INIT_PARAM_NAMES :: "string list" where
  "INIT_PARAM_NAMES = [''cause_indent'', ''exception_prefix'', ''func'', ''hint'',
                       ''pith'', ''random_int'']"

section \<open>The collaborators\<close>

text \<open>
  Everything the module imports is a parameter: the normaliser \<open>sanify_hint_child\<close>
  (called with the hint and the exception prefix), the testers, the getters of the sign
  (the name of a \<open>HintSign\<close> object) and of the arguments (a tuple), the two sets of
  signs, the table from signs to getter functions, the three getter functions of
  \<open>_errortype\<close>, and \<open>repr\<close> and \<open>str\<close>. Testers return a truth value; the normaliser
  and the getters may raise.
\<close>

record env =
  sanify_hint_child :: "pyobj \<Rightarrow> pyobj \<Rightarrow> error + pyobj"
  is_hint_pep :: "pyobj \<Rightarrow> bool"
  get_hint_pep_sign :: "pyobj \<Rightarrow> error + string"
  get_hint_pep_args :: "pyobj \<Rightarrow> error + pyobj list"
  is_hint_pep_args :: "pyobj \<Rightarrow> bool"
  is_hint_ignorable :: "pyobj \<Rightarrow> bool"
  HINT_SIGNS_SUPPORTED_DEEP :: "pyobj set"
  HINT_SIGNS_ORIGIN_ISINSTANCEABLE :: "pyobj set"
  PEP_HINT_SIGN_TO_GET_CAUSE_FUNC :: "pyobj \<rightharpoonup> getter"
  get_cause_or_none_instance_types_tuple :: getter
  get_cause_or_none_instance_type :: getter
  get_cause_or_none_type_instance_origin :: getter
  py_repr :: "pyobj \<Rightarrow> string"
  py_str :: "pyobj \<Rightarrow> string"

text \<open>A replacement field \<open>{x}\<close> of an f-string: a string is inserted as it is.\<close>

definition format_value :: "env \<Rightarrow> pyobj \<Rightarrow> string" where
  "format_value e x = (case x of PyStr s \<Rightarrow> s | _ \<Rightarrow> py_str e x)"

section \<open>The hint property\<close>

definition hint :: "CauseSleuth \<Rightarrow> error + pyobj" where
  "hint self =
     (case hint_priv self of
        None \<Rightarrow> Inl (AttributeError ''_hint'')
      | Some v \<Rightarrow> Inr v)"

text \<open>
  The setter: sanitise, then classify if PEP-compliant, then store. Each assignment
  writes the object at \<open>self\<close> in the heap.
\<close>

definition hint_setter :: "env \<Rightarrow> heap \<Rightarrow> addr \<Rightarrow> pyobj \<Rightarrow> (error + unit) \<times> heap" where
  "hint_setter e h self hint0 =
     (case sanify_hint_child e hint0 (exception_prefix (h ! self)) of
        Inl err \<Rightarrow> (Inl err, h)
      | Inr hint1 \<Rightarrow>
          if is_hint_pep e hint1 then
            (case get_hint_pep_sign e hint1 of
               Inl err \<Rightarrow> (Inl err, h)
             | Inr sign0 \<Rightarrow>
                 let h1 = h[self := (h ! self)\<lparr>hint_sign := PySign sign0\<rparr>] in
                 (case get_hint_pep_args e hint1 of
                    Inl err \<Rightarrow> (Inl err, h1)
                  | Inr args \<Rightarrow>
                      let h2 = h1[self := (h1 ! self)\<lparr>hint_childs := PyTuple args\<rparr>] in
                      (Inr (), h2[self := (h2 ! self)\<lparr>hint_priv := Some hint1\<rparr>])))
          else (Inr (), h[self := (h ! self)\<lparr>hint_priv := Some hint1\<rparr>]))"

section \<open>Construction\<close>

text \<open>
  \<open>__init__\<close> on a newly allocated object. The new object enters the heap, at the
  first unused address, with the five classified parameters and both nullified fields
  assigned and \<open>_hint\<close> still unassigned; the hint setter then runs on it. A failed
  assertion raises before any assignment.
\<close>

definition CauseSleuth_init ::
  "env \<Rightarrow> heap \<Rightarrow> pyobj \<Rightarrow> pyobj \<Rightarrow> pyobj \<Rightarrow> pyobj \<Rightarrow> pyobj \<Rightarrow> pyobj \<Rightarrow> (error + addr) \<times> heap" where
  \<open>CauseSleuth_init e h func0 pith0 hint0 cause_indent0 exception_prefix0 random_int0 =
     (if \<not> callable func0 then
        (Inl (AssertionError (py_repr e func0 @ '' not callable.'')), h)
      else if \<not> isinstance_str cause_indent0 then
        (Inl (AssertionError (py_repr e cause_indent0 @ '' not string.'')), h)
      else if \<not> isinstance_str exception_prefix0 then
        (Inl (AssertionError (py_repr e exception_prefix0 @ '' not string.'')), h)
      else if \<not> isinstance_NoneTypeOr_int random_int0 then
        (Inl (AssertionError (py_repr e random_int0 @ '' not integer or "None".'')), h)
      else
        let self = length h;
            h1 = h @ [\<lparr>cause_indent = cause_indent0,
                       exception_prefix = exception_prefix0,
                       func = func0,
                       hint_sign = PyNone,
                       hint_childs = PyNone,
                       pith = pith0,
                       random_int = random_int0,
                       hint_priv = None\<rparr>]
        in (case hint_setter e h1 self hint0 of
              (Inl err, h2) \<Rightarrow> (Inl err, h2)
            | (Inr _, h2) \<Rightarrow> (Inr self, h2)))\<close>

text \<open>
  The call \<open>CauseSleuth(**kwargs)\<close>: the keywords are bound to the parameters of
  \<open>__init__\<close>, all of them required; an unexpected or a missing keyword is a
  \<open>TypeError\<close>.
\<close>

definition CauseSleuth_call :: "env \<Rightarrow> heap \<Rightarrow> (string \<times> pyobj) list \<Rightarrow> (error + addr) \<times> heap" where
  "CauseSleuth_call e h kwargs =
     (if \<exists>arg_name \<in> set (map fst kwargs). arg_name \<notin> set INIT_PARAM_NAMES then
        (Inl TypeError, h)
      else
        (case (map_of kwargs ''func'', map_of kwargs ''pith'', map_of kwargs ''hint'') of
           (Some func0, Some pith0, Some hint0) \<Rightarrow>
             (case (map_of kwargs ''cause_indent'', map_of kwargs ''exception_prefix'',
                    map_of kwargs ''random_int'') of
                (Some cause_indent0, Some exception_prefix0, Some random_int0) \<Rightarrow>
                  CauseSleuth_init e h func0 pith0 hint0
                    cause_indent0 exception_prefix0 random_int0
              | _ \<Rightarrow> (Inl TypeError, h))
         | _ \<Rightarrow> (Inl TypeError, h)))"

section \<open>The dispatcher\<close>

definition unsupported_message :: "env \<Rightarrow> CauseSleuth \<Rightarrow> pyobj \<Rightarrow> string" where
  \<open>unsupported_message e self hint0 =
     format_value e (exception_prefix self) @ '' type hint '' @ py_repr e hint0 @
     '' unsupported (i.e., no "get_cause_or_none_"-prefixed getter function defined for this category of hint).''\<close>

definition get_cause_or_none :: "env \<Rightarrow> heap \<Rightarrow> addr \<Rightarrow> (error + string option) \<times> heap" where
  "get_cause_or_none e h self =
     (case hint (h ! self) of
        Inl err \<Rightarrow> (Inl err, h)
      | Inr hint0 \<Rightarrow>
          if is_hint_ignorable e hint0 then (Inr None, h)
          else if hint_sign (h ! self) = PyNone then
            (if isinstance_tuple hint0
             then get_cause_or_none_instance_types_tuple e h self
             else get_cause_or_none_instance_type e h self)
          else if hint_sign (h ! self) \<in> HINT_SIGNS_ORIGIN_ISINSTANCEABLE e \<and>
                  (\<not> is_hint_pep_args e hint0 \<or>
                   hint_sign (h ! self) \<notin> HINT_SIGNS_SUPPORTED_DEEP e)
          then get_cause_or_none_type_instance_origin e h self
          else
            (case PEP_HINT_SIGN_TO_GET_CAUSE_FUNC e (hint_sign (h ! self)) of
               None \<Rightarrow>
                 (Inl (BeartypeCallHintPepRaiseException
                         (unsupported_message e (h ! self) hint0)), h)
             | Some get_cause \<Rightarrow> get_cause h self))"

section \<open>Permutation\<close>

definition unrecognized_message :: "string \<Rightarrow> string" where
  "unrecognized_message arg_name =
     ''<class 'beartype._decor._error._errorsleuth.CauseSleuth'>.__init__() parameter '' @
     arg_name @ '' unrecognized.''"

text \<open>The first loop of \<open>permute\<close>, over the names of the keyword arguments in order.\<close>

fun check_arg_names :: "string list \<Rightarrow> error + unit" where
  "check_arg_names [] = Inr ()"
| "check_arg_names (arg_name # rest) =
     (if arg_name \<notin> set INIT_PARAM_NAMES
      then Inl (BeartypeCallHintPepRaiseException (unrecognized_message arg_name))
      else check_arg_names rest)"

text \<open>
  \<open>getattr(self, arg_name)\<close>: a slot, or the property \<open>hint\<close>; any other name has no
  attribute here (\<open>permute\<close> asks for the names of \<open>INIT_PARAM_NAMES\<close> only).
\<close>

definition getattr :: "CauseSleuth \<Rightarrow> string \<Rightarrow> error + pyobj" where
  "getattr self arg_name =
     (if arg_name = ''cause_indent'' then Inr (cause_indent self)
      else if arg_name = ''exception_prefix'' then Inr (exception_prefix self)
      else if arg_name = ''func'' then Inr (func self)
      else if arg_name = ''hint_sign'' then Inr (hint_sign self)
      else if arg_name = ''hint_childs'' then Inr (hint_childs self)
      else if arg_name = ''pith'' then Inr (pith self)
      else if arg_name = ''random_int'' then Inr (random_int self)
      else if arg_name = ''hint'' \<or> arg_name = ''_hint'' then hint self
      else Inl (AttributeError arg_name))"

text \<open>
  The second loop: each parameter that was not passed defaults to its current value.
  The names are visited in the order of the literal of \<open>_INIT_PARAM_NAMES\<close>; a
  frozenset fixes no order, and none matters here, since \<open>hint\<close> is the only one of
  these names whose \<open>getattr\<close> can raise.
\<close>

fun default_kwargs ::
  "CauseSleuth \<Rightarrow> string list \<Rightarrow> (string \<times> pyobj) list \<Rightarrow> error + (string \<times> pyobj) list" where
  "default_kwargs self [] kwargs = Inr kwargs"
| "default_kwargs self (arg_name # rest) kwargs =
     (if arg_name \<notin> set (map fst kwargs) then
        (case getattr self arg_name of
           Inl err \<Rightarrow> Inl err
         | Inr v \<Rightarrow> default_kwargs self rest (kwargs @ [(arg_name, v)]))
      else default_kwargs self rest kwargs)"

definition permute :: "env \<Rightarrow> heap \<Rightarrow> addr \<Rightarrow> (string \<times> pyobj) list \<Rightarrow> (error + addr) \<times> heap" where
  "permute e h self kwargs =
     (case check_arg_names (map fst kwargs) of
        Inl err \<Rightarrow> (Inl err, h)
      | Inr _ \<Rightarrow>
          (case default_kwargs (h ! self) INIT_PARAM_NAMES kwargs of
             Inl err \<Rightarrow> (Inl err, h)
           | Inr kwargs' \<Rightarrow> CauseSleuth_call e h kwargs'))"

section \<open>Notions used to state the properties\<close>

text \<open>The value a keyword argument takes in \<open>permute\<close>: the override if the name was
  passed, the current value otherwise.\<close>

definition kwarg :: "(string \<times> pyobj) list \<Rightarrow> string \<Rightarrow> pyobj \<Rightarrow> pyobj" where
  "kwarg kwargs arg_name current = (case map_of kwargs arg_name of Some v \<Rightarrow> v | None \<Rightarrow> current)"

text \<open>
  The sleuth \<open>c\<close> carries the classification of the hint \<open>hint1\<close>: the sign and the
  arguments of \<open>hint1\<close> if it is PEP-compliant, \<open>None\<close> twice otherwise.
\<close>

definition classified :: "env \<Rightarrow> pyobj \<Rightarrow> CauseSleuth \<Rightarrow> bool" where
  "classified e hint1 c =
     (if is_hint_pep e hint1 then
        (case get_hint_pep_sign e hint1 of
           Inl _ \<Rightarrow> False
         | Inr sign0 \<Rightarrow>
             (case get_hint_pep_args e hint1 of
                Inl _ \<Rightarrow> False
              | Inr args \<Rightarrow> hint_sign c = PySign sign0 \<and> hint_childs c = PyTuple args))
      else hint_sign c = PyNone \<and> hint_childs c = PyNone)"

section \<open>A small instance\<close>

text \<open>
  Collaborators and a heap of six sleuths on which the properties are evaluated: the
  normaliser returns its argument, \<open>object\<close> is the ignorable hint, three subscripted
  hints are PEP-compliant (signs \<open>Counter\<close>, \<open>List\<close> and \<open>frobnicate\<close>), \<open>List\<close> is
  checked deeply and has a getter function in the table, \<open>Counter\<close> is checked shallowly
  and \<open>frobnicate\<close> has no getter function.
\<close>

fun example_repr :: "pyobj \<Rightarrow> string" where
  "example_repr (PyObject n) = n"
| "example_repr (PyCallable n) = n"
| "example_repr (PySign n) = ''HintSign'' @ n"
| "example_repr PyNone = ''None''"
| "example_repr _ = ''<object>''"

definition example_sign :: "pyobj \<Rightarrow> string option" where
  "example_sign x =
     (if x = PyObject ''typing.Counter[str]'' then Some ''Counter''
      else if x = PyObject ''typing.List[int]'' then Some ''List''
      else if x = PyObject ''Frob[int]'' then Some ''frobnicate''
      else None)"

definition example_args :: "pyobj \<Rightarrow> pyobj list" where
  "example_args x =
     (if x = PyObject ''typing.Counter[str]'' then [PyCallable ''str'']
      else if x = PyObject ''typing.List[int]'' then [PyCallable ''int'']
      else if x = PyObject ''Frob[int]'' then [PyCallable ''int'']
      else [])"

definition example_getter :: "string \<Rightarrow> getter" where
  "example_getter name h self = (Inr (Some name), h)"

definition example_env :: env where
  "example_env =
     \<lparr>sanify_hint_child = (\<lambda>x prefix. Inr x),
      is_hint_pep = (\<lambda>x. example_sign x \<noteq> None),
      get_hint_pep_sign = (\<lambda>x. case example_sign x of
                                  None \<Rightarrow> Inl (Raised ''BeartypeDecorHintPepSignException'')
                                | Some s \<Rightarrow> Inr s),
      get_hint_pep_args = (\<lambda>x. Inr (example_args x)),
      is_hint_pep_args = (\<lambda>x. example_args x \<noteq> []),
      is_hint_ignorable = (\<lambda>x. x = PyCallable ''object''),
      HINT_SIGNS_SUPPORTED_DEEP = {PySign ''List''},
      HINT_SIGNS_ORIGIN_ISINSTANCEABLE = {PySign ''List'', PySign ''Counter''},
      PEP_HINT_SIGN_TO_GET_CAUSE_FUNC = [PySign ''List'' \<mapsto> example_getter ''sequence''],
      get_cause_or_none_instance_types_tuple = example_getter ''types tuple'',
      get_cause_or_none_instance_type = example_getter ''type'',
      get_cause_or_none_type_instance_origin = example_getter ''origin'',
      py_repr = example_repr,
      py_str = example_repr\<rparr>"

definition example_sleuth :: "pyobj \<Rightarrow> pyobj \<Rightarrow> pyobj \<Rightarrow> CauseSleuth" where
  "example_sleuth hint0 sign0 childs =
     \<lparr>cause_indent = PyStr '''',
      exception_prefix = PyStr ''@beartyped f() parameter x'',
      func = PyCallable ''f'',
      hint_sign = sign0,
      hint_childs = childs,
      pith = PyInt 42,
      random_int = PyNone,
      hint_priv = Some hint0\<rparr>"

definition example_heap :: heap where
  "example_heap =
     [example_sleuth (PyCallable ''object'') PyNone PyNone,
      example_sleuth (PyCallable ''str'') PyNone PyNone,
      example_sleuth (PyTuple [PyCallable ''str'', PyCallable ''bytes'']) PyNone PyNone,
      example_sleuth (PyObject ''typing.Counter[str]'') (PySign ''Counter'')
        (PyTuple [PyCallable ''str'']),
      example_sleuth (PyObject ''typing.List[int]'') (PySign ''List'')
        (PyTuple [PyCallable ''int'']),
      example_sleuth (PyObject ''Frob[int]'') (PySign ''frobnicate'')
        (PyTuple [PyCallable ''int''])]"



lemmas example_defs = example_env_def example_heap_def example_sleuth_def example_sign_def
  example_args_def example_getter_def

section \<open>Auxiliary facts\<close>

subsection \<open>The two loops of \<open>permute\<close>\<close>

lemma check_arg_names_find:
  "check_arg_names ns =
     (case List.find (\<lambda>n. n \<notin> set INIT_PARAM_NAMES) ns of
        None \<Rightarrow> Inr ()
      | Some n \<Rightarrow> Inl (BeartypeCallHintPepRaiseException (unrecognized_message n)))"
  by (induction ns) simp_all

lemma default_kwargs_map_of:
  assumes "default_kwargs c ns kwargs = Inr kwargs'"
  shows "map_of kwargs' n =
           (case map_of kwargs n of
              Some v \<Rightarrow> Some v
            | None \<Rightarrow> (if n \<in> set ns
                       then (case getattr c n of Inr v \<Rightarrow> Some v | Inl _ \<Rightarrow> None)
                       else None))"
  using assms
proof (induction ns arbitrary: kwargs)
  case Nil
  then show ?case by (simp split: option.splits)
next
  case (Cons m ns)
  show ?case
  proof (cases "m \<in> set (map fst kwargs)")
    case True
    then have "default_kwargs c ns kwargs = Inr kwargs'"
      using Cons.prems by simp
    from Cons.IH [OF this] True show ?thesis
      by (auto split: option.splits simp: map_of_eq_None_iff)
  next
    case False
    then obtain v where v: "getattr c m = Inr v"
      and rest: "default_kwargs c ns (kwargs @ [(m, v)]) = Inr kwargs'"
      using Cons.prems by (auto split: sum.splits)
    from False have none: "map_of kwargs m = None"
      by (simp add: map_of_eq_None_iff)
    from Cons.IH [OF rest] v none show ?thesis
      by (auto split: option.splits simp: map_add_def)
  qed
qed

lemma default_kwargs_keys:
  assumes "default_kwargs c ns kwargs = Inr kwargs'"
  shows "set (map fst kwargs') = set (map fst kwargs) \<union> set ns"
  using assms
proof (induction ns arbitrary: kwargs)
  case Nil
  then show ?case by simp
next
  case (Cons m ns)
  show ?case
  proof (cases "m \<in> set (map fst kwargs)")
    case True
    with Cons show ?thesis by auto
  next
    case False
    then obtain v where "default_kwargs c ns (kwargs @ [(m, v)]) = Inr kwargs'"
      using Cons.prems by (auto split: sum.splits)
    from Cons.IH [OF this] show ?thesis by auto
  qed
qed

lemma default_kwargs_succeeds:
  assumes "\<forall>n \<in> set ns. n \<notin> set (map fst kwargs) \<longrightarrow> (\<exists>v. getattr c n = Inr v)"
  shows "\<exists>kwargs'. default_kwargs c ns kwargs = Inr kwargs'"
  using assms
proof (induction ns arbitrary: kwargs)
  case Nil
  then show ?case by simp
next
  case (Cons m ns)
  show ?case
  proof (cases "m \<in> set (map fst kwargs)")
    case True
    with Cons show ?thesis by simp
  next
    case False
    with Cons.prems obtain v where v: "getattr c m = Inr v" by auto
    have "\<forall>n \<in> set ns. n \<notin> set (map fst (kwargs @ [(m, v)])) \<longrightarrow> (\<exists>v. getattr c n = Inr v)"
      using Cons.prems by auto
    from Cons.IH [OF this] False v show ?thesis by simp
  qed
qed

subsection \<open>What the setter and the constructor write\<close>

lemma hint_setter_frame:
  assumes "hint_setter e h a x = (r, h')"
  shows "length h' = length h \<and> (\<forall>b. b \<noteq> a \<longrightarrow> h' ! b = h ! b)"
  using assms
  by (auto simp: hint_setter_def Let_def split: sum.splits if_splits)

lemma CauseSleuth_init_frame:
  assumes "CauseSleuth_init e h f p x ci ep ri = (r, h')"
  shows "take (length h) h' = h \<and> (\<forall>a. r = Inr a \<longrightarrow> a = length h \<and> length h' = Suc (length h))"
proof (cases "callable f \<and> isinstance_str ci \<and> isinstance_str ep \<and> isinstance_NoneTypeOr_int ri")
  case False
  with assms show ?thesis
    by (auto simp: CauseSleuth_init_def split: if_splits)
next
  case True
  define c where "c = \<lparr>cause_indent = ci, exception_prefix = ep, func = f, hint_sign = PyNone,
     hint_childs = PyNone, pith = p, random_int = ri, hint_priv = None\<rparr>"
  obtain r2 h2 where s: "hint_setter e (h @ [c]) (length h) x = (r2, h2)"
    by (cases "hint_setter e (h @ [c]) (length h) x")
  from hint_setter_frame [OF s]
  have len: "length h2 = Suc (length h)" and same: "\<forall>b. b \<noteq> length h \<longrightarrow> h2 ! b = (h @ [c]) ! b"
    by auto
  have h': "h' = h2" and r: "r = (case r2 of Inl err \<Rightarrow> Inl err | Inr _ \<Rightarrow> Inr (length h))"
    using assms True s by (auto simp: CauseSleuth_init_def Let_def c_def split: sum.splits)
  have "take (length h) h2 = h"
    using len same by (intro nth_equalityI) (auto simp: nth_append)
  with h' r len show ?thesis by (auto split: sum.splits)
qed

lemma CauseSleuth_init_success:
  assumes "CauseSleuth_init e h f p x ci ep ri = (Inr a, h')"
  shows "callable f \<and> isinstance_str ci \<and> isinstance_str ep \<and> isinstance_NoneTypeOr_int ri \<and>
         a = length h \<and>
         (\<exists>hint1 sign1 childs1.
            sanify_hint_child e x ep = Inr hint1 \<and>
            classified e hint1 \<lparr>cause_indent = ci, exception_prefix = ep, func = f,
                hint_sign = sign1, hint_childs = childs1, pith = p, random_int = ri,
                hint_priv = Some hint1\<rparr> \<and>
            h' = h @ [\<lparr>cause_indent = ci, exception_prefix = ep, func = f,
                hint_sign = sign1, hint_childs = childs1, pith = p, random_int = ri,
                hint_priv = Some hint1\<rparr>])"
  using assms
  by (auto simp: CauseSleuth_init_def hint_setter_def classified_def Let_def
      split: if_splits sum.splits)

lemma CauseSleuth_init_object:
  assumes "CauseSleuth_init e h f p x ci ep ri = (Inr a, h')"
  shows "\<exists>hint1. sanify_hint_child e x ep = Inr hint1 \<and>
           hint_priv (h' ! a) = Some hint1 \<and> classified e hint1 (h' ! a) \<and>
           cause_indent (h' ! a) = ci \<and> exception_prefix (h' ! a) = ep \<and>
           func (h' ! a) = f \<and> pith (h' ! a) = p \<and> random_int (h' ! a) = ri"
proof -
  from CauseSleuth_init_success [OF assms] obtain hint1 sign1 childs1 where
    a: "a = length h" and s: "sanify_hint_child e x ep = Inr hint1"
    and c: "classified e hint1 \<lparr>cause_indent = ci, exception_prefix = ep, func = f,
                hint_sign = sign1, hint_childs = childs1, pith = p, random_int = ri,
                hint_priv = Some hint1\<rparr>"
    and h': "h' = h @ [\<lparr>cause_indent = ci, exception_prefix = ep, func = f,
                hint_sign = sign1, hint_childs = childs1, pith = p, random_int = ri,
                hint_priv = Some hint1\<rparr>]"
    by blast
  have "h' ! a = \<lparr>cause_indent = ci, exception_prefix = ep, func = f,
                hint_sign = sign1, hint_childs = childs1, pith = p, random_int = ri,
                hint_priv = Some hint1\<rparr>"
    using a h' by simp
  with s c show ?thesis by simp
qed


subsection \<open>\<open>permute\<close> as a call of the constructor\<close>

lemma getattr_init_param:
  assumes "n \<in> set INIT_PARAM_NAMES" and "n \<noteq> ''hint''"
  shows "\<exists>v. getattr c n = Inr v"
  using assms by (auto simp: INIT_PARAM_NAMES_def getattr_def)

lemma CauseSleuth_call_frame:
  assumes "CauseSleuth_call e h kwargs = (r, h')"
  shows "take (length h) h' = h \<and>
         (\<forall>a. r = Inr a \<longrightarrow> a = length h \<and> length h' = Suc (length h))"
proof -
  have "(\<exists>f p x ci ep ri.
           CauseSleuth_call e h kwargs = CauseSleuth_init e h f p x ci ep ri) \<or>
        CauseSleuth_call e h kwargs = (Inl TypeError, h)"
    unfolding CauseSleuth_call_def by (simp split: option.splits) blast
  then show ?thesis
  proof
    assume "\<exists>f p x ci ep ri.
              CauseSleuth_call e h kwargs = CauseSleuth_init e h f p x ci ep ri"
    then show ?thesis using assms CauseSleuth_init_frame by metis
  next
    assume "CauseSleuth_call e h kwargs = (Inl TypeError, h)"
    with assms show ?thesis by auto
  qed
qed

lemma permute_frame:
  assumes "permute e h self kwargs = (r, h')"
  shows "take (length h) h' = h \<and>
         (\<forall>a. r = Inr a \<longrightarrow> a = length h \<and> length h' = Suc (length h))"
proof (cases "\<exists>kwargs'. permute e h self kwargs = CauseSleuth_call e h kwargs'")
  case True
  then show ?thesis using assms CauseSleuth_call_frame by metis
next
  case False
  then have "\<exists>err. permute e h self kwargs = (Inl err, h)"
    unfolding permute_def by (auto split: sum.splits)
  with assms show ?thesis by auto
qed

lemma permute_unrecognized:
  assumes "List.find (\<lambda>n. n \<notin> set INIT_PARAM_NAMES) (map fst kwargs) = Some n"
  shows "permute e h self kwargs =
           (Inl (BeartypeCallHintPepRaiseException (unrecognized_message n)), h)"
  using assms by (simp add: permute_def check_arg_names_find)

lemma permute_recognized:
  assumes names: "\<forall>n \<in> set (map fst kwargs). n \<in> set INIT_PARAM_NAMES"
    and hint: "''hint'' \<in> set (map fst kwargs) \<or> hint_priv (h ! self) = Some hint1"
  shows "permute e h self kwargs =
           CauseSleuth_init e h
             (kwarg kwargs ''func'' (func (h ! self)))
             (kwarg kwargs ''pith'' (pith (h ! self)))
             (kwarg kwargs ''hint'' hint1)
             (kwarg kwargs ''cause_indent'' (cause_indent (h ! self)))
             (kwarg kwargs ''exception_prefix'' (exception_prefix (h ! self)))
             (kwarg kwargs ''random_int'' (random_int (h ! self)))"
proof -
  have chk: "check_arg_names (map fst kwargs) = Inr ()"
    using names by (simp add: check_arg_names_find find_None_iff split: option.splits)
  have "\<forall>n \<in> set INIT_PARAM_NAMES. n \<notin> set (map fst kwargs) \<longrightarrow>
          (\<exists>v. getattr (h ! self) n = Inr v)"
  proof (intro ballI impI)
    fix n assume n: "n \<in> set INIT_PARAM_NAMES" "n \<notin> set (map fst kwargs)"
    show "\<exists>v. getattr (h ! self) n = Inr v"
    proof (cases "n = ''hint''")
      case True
      with n hint show ?thesis by (auto simp: getattr_def hint_def)
    next
      case False
      with n show ?thesis by (simp add: getattr_init_param)
    qed
  qed
  from default_kwargs_succeeds [OF this]
  obtain kwargs' where d: "default_kwargs (h ! self) INIT_PARAM_NAMES kwargs = Inr kwargs'"
    by blast
  have keys: "set (map fst kwargs') = set INIT_PARAM_NAMES"
    using default_kwargs_keys [OF d] names by auto
  have look: "\<And>n. n \<in> set INIT_PARAM_NAMES \<Longrightarrow>
     map_of kwargs' n = (case map_of kwargs n of Some v \<Rightarrow> Some v
        | None \<Rightarrow> (case getattr (h ! self) n of Inr v \<Rightarrow> Some v | Inl _ \<Rightarrow> None))"
    using default_kwargs_map_of [OF d] by simp
  have hint_none: "map_of kwargs ''hint'' = None \<Longrightarrow> hint_priv (h ! self) = Some hint1"
    using hint by (auto simp: map_of_eq_None_iff)
  have vals:
    "map_of kwargs' ''func'' = Some (kwarg kwargs ''func'' (func (h ! self)))"
    "map_of kwargs' ''pith'' = Some (kwarg kwargs ''pith'' (pith (h ! self)))"
    "map_of kwargs' ''cause_indent'' = Some (kwarg kwargs ''cause_indent'' (cause_indent (h ! self)))"
    "map_of kwargs' ''exception_prefix'' =
       Some (kwarg kwargs ''exception_prefix'' (exception_prefix (h ! self)))"
    "map_of kwargs' ''random_int'' = Some (kwarg kwargs ''random_int'' (random_int (h ! self)))"
    by (simp_all add: look INIT_PARAM_NAMES_def kwarg_def getattr_def split: option.splits)
  have hv: "map_of kwargs' ''hint'' = Some (kwarg kwargs ''hint'' hint1)"
    using hint_none
    by (auto simp: look INIT_PARAM_NAMES_def kwarg_def getattr_def hint_def split: option.splits)
  have "CauseSleuth_call e h kwargs' =
          CauseSleuth_init e h
             (kwarg kwargs ''func'' (func (h ! self)))
             (kwarg kwargs ''pith'' (pith (h ! self)))
             (kwarg kwargs ''hint'' hint1)
             (kwarg kwargs ''cause_indent'' (cause_indent (h ! self)))
             (kwarg kwargs ''exception_prefix'' (exception_prefix (h ! self)))
             (kwarg kwargs ''random_int'' (random_int (h ! self)))"
    unfolding CauseSleuth_call_def using keys by (simp add: vals hv)
  then show ?thesis by (simp add: permute_def chk d)
qed

lemma default_kwargs_getattr:
  assumes d: "default_kwargs c ns kwargs = Inr kwargs'"
    and n: "n \<in> set ns" "n \<notin> set (map fst kwargs)"
  shows "\<exists>v. getattr c n = Inr v"
proof -
  have "n \<in> set (map fst kwargs')"
    using default_kwargs_keys [OF d] n by simp
  then have "map_of kwargs' n \<noteq> None"
    by (simp add: map_of_eq_None_iff)
  moreover have "map_of kwargs n = None"
    using n by (simp add: map_of_eq_None_iff)
  ultimately show ?thesis
    using default_kwargs_map_of [OF d, of n] n by (auto split: sum.splits)
qed

lemma permute_success:
  assumes "permute e h self kwargs = (Inr a, h')"
  shows "(\<forall>n \<in> set (map fst kwargs). n \<in> set INIT_PARAM_NAMES) \<and>
         (''hint'' \<in> set (map fst kwargs) \<or> (\<exists>hint1. hint_priv (h ! self) = Some hint1))"
proof -
  from assms have chk: "check_arg_names (map fst kwargs) = Inr ()"
    by (auto simp: permute_def split: sum.splits)
  then have names: "\<forall>n \<in> set (map fst kwargs). n \<in> set INIT_PARAM_NAMES"
    by (auto simp: check_arg_names_find find_None_iff split: option.splits)
  from assms chk obtain kwargs' where
    d: "default_kwargs (h ! self) INIT_PARAM_NAMES kwargs = Inr kwargs'"
    by (auto simp: permute_def split: sum.splits)
  have "''hint'' \<in> set (map fst kwargs) \<or> (\<exists>hint1. hint_priv (h ! self) = Some hint1)"
  proof (cases "''hint'' \<in> set (map fst kwargs)")
    case True
    then show ?thesis by simp
  next
    case False
    have "''hint'' \<in> set INIT_PARAM_NAMES" by (simp add: INIT_PARAM_NAMES_def)
    from default_kwargs_getattr [OF d this False]
    show ?thesis by (auto simp: getattr_def hint_def split: option.splits)
  qed
  with names show ?thesis by simp
qed


subsection \<open>The message of the unsupported hint\<close>

lemma sublist_third: "sublist r (a @ b @ r @ s)"
  by (metis append.assoc sublist_appendI)

lemma unsupported_message_embeds:
  "prefix (format_value e (exception_prefix c)) (unsupported_message e c hint0) \<and>
   sublist (py_repr e hint0) (unsupported_message e c hint0)"
proof
  show "prefix (format_value e (exception_prefix c)) (unsupported_message e c hint0)"
    by (simp add: unsupported_message_def)
  show "sublist (py_repr e hint0) (unsupported_message e c hint0)"
    unfolding unsupported_message_def by (rule sublist_third)
qed

subsection \<open>The instance evaluated\<close>

lemma example_init:
  "CauseSleuth_init example_env [] (PyCallable ''f'') (PyInt 42) (PyObject ''typing.List[int]'')
     (PyStr '''') (PyStr ''@beartyped f() parameter x'') PyNone =
   (Inr 0, [example_heap ! 4])"
  by (simp add: example_defs CauseSleuth_init_def hint_setter_def)

lemma example_init_untagged:
  "CauseSleuth_init example_env [] (PyCallable ''f'') (PyInt 42) (PyCallable ''str'')
     (PyStr '''') (PyStr ''@beartyped f() parameter x'') PyNone =
   (Inr 0, [example_heap ! 1])"
  by (simp add: example_defs CauseSleuth_init_def hint_setter_def)

lemma example_permute_pith:
  "permute example_env example_heap 1 [(''pith'', PyInt 1)] =
     (Inr 6, example_heap @ [(example_heap ! 1)\<lparr>pith := PyInt 1\<rparr>])"
proof -
  have names: "\<forall>n \<in> set (map fst [(''pith'', PyInt 1)]). n \<in> set INIT_PARAM_NAMES"
    by (simp add: INIT_PARAM_NAMES_def)
  have hint: "''hint'' \<in> set (map fst [(''pith'', PyInt 1)]) \<or>
              hint_priv (example_heap ! 1) = Some (PyCallable ''str'')"
    by (simp add: example_defs)
  show ?thesis
    unfolding permute_recognized [OF names hint]
    by (simp add: example_defs kwarg_def CauseSleuth_init_def hint_setter_def)
qed

lemma example_permute_hint:
  "permute example_env example_heap 1 [(''hint'', PyObject ''typing.List[int]'')] =
     (Inr 6, example_heap @ [example_heap ! 4])"
proof -
  have names: "\<forall>n \<in> set (map fst [(''hint'', PyObject ''typing.List[int]'')]).
                 n \<in> set INIT_PARAM_NAMES"
    by (simp add: INIT_PARAM_NAMES_def)
  have hint: "''hint'' \<in> set (map fst [(''hint'', PyObject ''typing.List[int]'')]) \<or>
              hint_priv (example_heap ! 1) = Some (PyCallable ''str'')"
    by simp
  show ?thesis
    unfolding permute_recognized [OF names hint]
    by (simp add: example_defs kwarg_def CauseSleuth_init_def hint_setter_def)
qed



section \<open>Properties\<close>

text \<open>
  C1 (amended). A sleuth whose hint is not ignorable, carries a sign that is not
  dispatched to the shallow getter and has no getter function in the table makes
  \<open>get_cause_or_none\<close> raise \<open>_BeartypeCallHintPepRaiseException\<close>, the heap left as it
  was. The message is the exception prefix, then \<open>type hint\<close>, then the \<open>repr\<close> of the
  hint, then a fixed text: it embeds the prefix and the representation of the hint, and
  not the sign.
\<close>

theorem get_cause_or_none_unsupported:
  assumes "hint_priv (h ! self) = Some hint0"
    and "\<not> is_hint_ignorable e hint0"
    and "hint_sign (h ! self) \<noteq> PyNone"
    and "\<not> (hint_sign (h ! self) \<in> HINT_SIGNS_ORIGIN_ISINSTANCEABLE e \<and>
            (\<not> is_hint_pep_args e hint0 \<or>
             hint_sign (h ! self) \<notin> HINT_SIGNS_SUPPORTED_DEEP e))"
    and "PEP_HINT_SIGN_TO_GET_CAUSE_FUNC e (hint_sign (h ! self)) = None"
  shows "get_cause_or_none e h self =
           (Inl (BeartypeCallHintPepRaiseException
                   (unsupported_message e (h ! self) hint0)), h) \<and>
         prefix (format_value e (exception_prefix (h ! self)))
           (unsupported_message e (h ! self) hint0) \<and>
         sublist (py_repr e hint0) (unsupported_message e (h ! self) hint0)"
  using assms unsupported_message_embeds [of e "h ! self" hint0]
  by (auto simp: get_cause_or_none_def hint_def)

theorem get_cause_or_none_unsupported_witness:
  "hint_priv (example_heap ! 5) = Some (PyObject ''Frob[int]'') \<and>
   \<not> is_hint_ignorable example_env (PyObject ''Frob[int]'') \<and>
   hint_sign (example_heap ! 5) = PySign ''frobnicate'' \<and>
   PySign ''frobnicate'' \<notin> HINT_SIGNS_ORIGIN_ISINSTANCEABLE example_env \<and>
   PEP_HINT_SIGN_TO_GET_CAUSE_FUNC example_env (PySign ''frobnicate'') = None \<and>
   get_cause_or_none example_env example_heap 5 =
     (Inl (BeartypeCallHintPepRaiseException
        (unsupported_message example_env (example_heap ! 5) (PyObject ''Frob[int]''))),
      example_heap) \<and>
   sublist ''Frob[int]''
     (unsupported_message example_env (example_heap ! 5) (PyObject ''Frob[int]''))"
  using get_cause_or_none_unsupported
    [of example_heap 5 "PyObject ''Frob[int]''" example_env]
  by (simp add: example_defs)

text \<open>
  The sign itself is not part of the message: for the hint \<open>Frob[int]\<close> of sign
  \<open>frobnicate\<close> the message raised does not contain \<open>frobnicate\<close>.
\<close>

theorem get_cause_or_none_unsupported_counterexample:
  \<open>get_cause_or_none example_env example_heap 5 =
     (Inl (BeartypeCallHintPepRaiseException
        ''@beartyped f() parameter x type hint Frob[int] unsupported (i.e., no "get_cause_or_none_"-prefixed getter function defined for this category of hint).''),
      example_heap) \<and>
   hint_sign (example_heap ! 5) = PySign ''frobnicate'' \<and>
   \<not> sublist ''frobnicate''
     ''@beartyped f() parameter x type hint Frob[int] unsupported (i.e., no "get_cause_or_none_"-prefixed getter function defined for this category of hint).''\<close>
proof -
  have \<open>\<not> sublist ''frobnicate''
     ''@beartyped f() parameter x type hint Frob[int] unsupported (i.e., no "get_cause_or_none_"-prefixed getter function defined for this category of hint).''\<close>
    by code_simp
  then show ?thesis
    by (simp add: example_defs get_cause_or_none_def hint_def unsupported_message_def
        format_value_def)
qed

text \<open>
  C2. If the hint of a sleuth is ignorable, \<open>get_cause_or_none\<close> returns \<open>None\<close> at
  once: whatever the sign, the sets of signs, the table and the getter functions are,
  the result is \<open>None\<close> and the heap is left as it was (no getter function ran, nothing
  was normalised or allocated); the same holds after the pith is replaced by any value.
\<close>

theorem get_cause_or_none_ignorable:
  assumes "hint_priv (h ! self) = Some hint0"
    and "is_hint_ignorable e hint0"
  shows "get_cause_or_none e h self = (Inr None, h) \<and>
         (self < length h \<longrightarrow>
            get_cause_or_none e (h[self := (h ! self)\<lparr>pith := v\<rparr>]) self =
              (Inr None, h[self := (h ! self)\<lparr>pith := v\<rparr>]))"
  using assms by (simp add: get_cause_or_none_def hint_def)

theorem get_cause_or_none_ignorable_witness:
  "hint_priv (example_heap ! 0) = Some (PyCallable ''object'') \<and>
   is_hint_ignorable example_env (PyCallable ''object'') \<and>
   (0::nat) < length example_heap \<and>
   get_cause_or_none example_env example_heap 0 = (Inr None, example_heap) \<and>
   get_cause_or_none example_env
     (example_heap[0 := (example_heap ! 0)\<lparr>pith := PyStr ''other''\<rparr>]) 0 =
     (Inr None, example_heap[0 := (example_heap ! 0)\<lparr>pith := PyStr ''other''\<rparr>])"
  using get_cause_or_none_ignorable
    [of example_heap 0 "PyCallable ''object''" example_env "PyStr ''other''"]
  by (simp add: example_defs)

text \<open>
  C3. For a sleuth whose hint is not ignorable and whose sign is \<open>None\<close>,
  \<open>get_cause_or_none\<close> is the call of exactly one of two getter functions on that
  sleuth: the one for tuples of types if the hint is a tuple, the one for a single type
  otherwise. Nothing else takes part: the outcome does not depend on the sets of signs,
  on the table or on the getter function for origin types.
\<close>

theorem get_cause_or_none_untagged:
  assumes "hint_priv (h ! self) = Some hint0"
    and "\<not> is_hint_ignorable e hint0"
    and "hint_sign (h ! self) = PyNone"
  shows "get_cause_or_none e h self =
           (if isinstance_tuple hint0
            then get_cause_or_none_instance_types_tuple e h self
            else get_cause_or_none_instance_type e h self) \<and>
         (\<forall>deep origin table getter.
            get_cause_or_none
              (e\<lparr>HINT_SIGNS_SUPPORTED_DEEP := deep,
                 HINT_SIGNS_ORIGIN_ISINSTANCEABLE := origin,
                 PEP_HINT_SIGN_TO_GET_CAUSE_FUNC := table,
                 get_cause_or_none_type_instance_origin := getter\<rparr>) h self =
            get_cause_or_none e h self)"
  using assms by (simp add: get_cause_or_none_def hint_def)

theorem get_cause_or_none_untagged_witness:
  "hint_priv (example_heap ! 1) = Some (PyCallable ''str'') \<and>
   hint_priv (example_heap ! 2) = Some (PyTuple [PyCallable ''str'', PyCallable ''bytes'']) \<and>
   \<not> is_hint_ignorable example_env (PyCallable ''str'') \<and>
   \<not> is_hint_ignorable example_env (PyTuple [PyCallable ''str'', PyCallable ''bytes'']) \<and>
   hint_sign (example_heap ! 1) = PyNone \<and>
   hint_sign (example_heap ! 2) = PyNone \<and>
   get_cause_or_none example_env example_heap 1 = (Inr (Some ''type''), example_heap) \<and>
   get_cause_or_none example_env example_heap 2 = (Inr (Some ''types tuple''), example_heap)"
  using get_cause_or_none_untagged [of example_heap 1 "PyCallable ''str''" example_env]
    get_cause_or_none_untagged
      [of example_heap 2 "PyTuple [PyCallable ''str'', PyCallable ''bytes'']" example_env]
  by (simp add: example_defs)

text \<open>
  C4. For a sleuth whose hint is not ignorable and whose sign is not \<open>None\<close>: if the
  sign is in \<open>HINT_SIGNS_ORIGIN_ISINSTANCEABLE\<close> and the hint is unsubscripted or the
  sign is not in \<open>HINT_SIGNS_SUPPORTED_DEEP\<close>, then \<open>get_cause_or_none\<close> is the call of
  the getter function for origin types, whatever the table holds; in every other case it
  is the call of the getter function that the table holds for the sign, or the
  exception if the table holds none.
\<close>

theorem get_cause_or_none_tagged:
  assumes "hint_priv (h ! self) = Some hint0"
    and "\<not> is_hint_ignorable e hint0"
    and "hint_sign (h ! self) \<noteq> PyNone"
  shows "(hint_sign (h ! self) \<in> HINT_SIGNS_ORIGIN_ISINSTANCEABLE e \<and>
          (\<not> is_hint_pep_args e hint0 \<or>
           hint_sign (h ! self) \<notin> HINT_SIGNS_SUPPORTED_DEEP e)
          \<longrightarrow> (\<forall>table.
                 get_cause_or_none (e\<lparr>PEP_HINT_SIGN_TO_GET_CAUSE_FUNC := table\<rparr>) h self =
                 get_cause_or_none_type_instance_origin e h self)) \<and>
         (\<not> (hint_sign (h ! self) \<in> HINT_SIGNS_ORIGIN_ISINSTANCEABLE e \<and>
             (\<not> is_hint_pep_args e hint0 \<or>
              hint_sign (h ! self) \<notin> HINT_SIGNS_SUPPORTED_DEEP e))
          \<longrightarrow> get_cause_or_none e h self =
                (case PEP_HINT_SIGN_TO_GET_CAUSE_FUNC e (hint_sign (h ! self)) of
                   None \<Rightarrow> (Inl (BeartypeCallHintPepRaiseException
                                    (unsupported_message e (h ! self) hint0)), h)
                 | Some get_cause \<Rightarrow> get_cause h self))"
  using assms by (auto simp: get_cause_or_none_def hint_def)

theorem get_cause_or_none_tagged_witness:
  "hint_priv (example_heap ! 3) = Some (PyObject ''typing.Counter[str]'') \<and>
   hint_priv (example_heap ! 4) = Some (PyObject ''typing.List[int]'') \<and>
   \<not> is_hint_ignorable example_env (PyObject ''typing.Counter[str]'') \<and>
   \<not> is_hint_ignorable example_env (PyObject ''typing.List[int]'') \<and>
   hint_sign (example_heap ! 3) = PySign ''Counter'' \<and>
   hint_sign (example_heap ! 4) = PySign ''List'' \<and>
   PySign ''Counter'' \<in> HINT_SIGNS_ORIGIN_ISINSTANCEABLE example_env \<and>
   PySign ''Counter'' \<notin> HINT_SIGNS_SUPPORTED_DEEP example_env \<and>
   PySign ''List'' \<in> HINT_SIGNS_ORIGIN_ISINSTANCEABLE example_env \<and>
   PySign ''List'' \<in> HINT_SIGNS_SUPPORTED_DEEP example_env \<and>
   is_hint_pep_args example_env (PyObject ''typing.List[int]'') \<and>
   get_cause_or_none example_env example_heap 3 = (Inr (Some ''origin''), example_heap) \<and>
   get_cause_or_none example_env example_heap 4 = (Inr (Some ''sequence''), example_heap)"
  using get_cause_or_none_tagged
      [of example_heap 3 "PyObject ''typing.Counter[str]''" example_env]
    get_cause_or_none_tagged
      [of example_heap 4 "PyObject ''typing.List[int]''" example_env]
  by (simp add: example_defs)




text \<open>
  C6 (amended). \<open>permute\<close> checks the names of the keyword arguments against the names
  of the parameters of \<open>__init__\<close>. If some name is not among them, it raises
  \<open>_BeartypeCallHintPepRaiseException\<close> for the first such name, whatever the
  collaborators are and with the heap left as it was (nothing is constructed). If every
  name is among them (and the hint of the sleuth is assigned), no exception comes from
  this check: \<open>permute\<close> is the call of the constructor on the overrides and the current
  values, and raises only if that call does.
\<close>

theorem permute_unrecognized_iff:
  "((\<exists>n \<in> set (map fst kwargs). n \<notin> set INIT_PARAM_NAMES)
    \<longrightarrow> (\<exists>n. List.find (\<lambda>n. n \<notin> set INIT_PARAM_NAMES) (map fst kwargs) = Some n \<and>
             permute e h self kwargs =
               (Inl (BeartypeCallHintPepRaiseException (unrecognized_message n)), h))) \<and>
   ((\<forall>n \<in> set (map fst kwargs). n \<in> set INIT_PARAM_NAMES) \<and>
    hint_priv (h ! self) = Some hint1
    \<longrightarrow> permute e h self kwargs =
          CauseSleuth_init e h
            (kwarg kwargs ''func'' (func (h ! self)))
            (kwarg kwargs ''pith'' (pith (h ! self)))
            (kwarg kwargs ''hint'' hint1)
            (kwarg kwargs ''cause_indent'' (cause_indent (h ! self)))
            (kwarg kwargs ''exception_prefix'' (exception_prefix (h ! self)))
            (kwarg kwargs ''random_int'' (random_int (h ! self))))"
proof (rule conjI; rule impI)
  assume "\<exists>n \<in> set (map fst kwargs). n \<notin> set INIT_PARAM_NAMES"
  then obtain n where
    "List.find (\<lambda>n. n \<notin> set INIT_PARAM_NAMES) (map fst kwargs) = Some n"
    by (cases "List.find (\<lambda>n. n \<notin> set INIT_PARAM_NAMES) (map fst kwargs)")
       (auto simp: find_None_iff)
  with permute_unrecognized [OF this]
  show "\<exists>n. List.find (\<lambda>n. n \<notin> set INIT_PARAM_NAMES) (map fst kwargs) = Some n \<and>
             permute e h self kwargs =
               (Inl (BeartypeCallHintPepRaiseException (unrecognized_message n)), h)"
    by blast
next
  assume a: "(\<forall>n \<in> set (map fst kwargs). n \<in> set INIT_PARAM_NAMES) \<and>
    hint_priv (h ! self) = Some hint1"
  then have names: "\<forall>n \<in> set (map fst kwargs). n \<in> set INIT_PARAM_NAMES"
    and hint: "''hint'' \<in> set (map fst kwargs) \<or> hint_priv (h ! self) = Some hint1"
    by simp_all
  show "permute e h self kwargs =
          CauseSleuth_init e h
            (kwarg kwargs ''func'' (func (h ! self)))
            (kwarg kwargs ''pith'' (pith (h ! self)))
            (kwarg kwargs ''hint'' hint1)
            (kwarg kwargs ''cause_indent'' (cause_indent (h ! self)))
            (kwarg kwargs ''exception_prefix'' (exception_prefix (h ! self)))
            (kwarg kwargs ''random_int'' (random_int (h ! self)))"
    by (rule permute_recognized [OF names hint])
qed

theorem permute_unrecognized_iff_witness:
  "''piht'' \<in> set (map fst [(''pith'', PyInt 1), (''piht'', PyInt 2)]) \<and>
   ''piht'' \<notin> set INIT_PARAM_NAMES \<and>
   permute example_env example_heap 1 [(''pith'', PyInt 1), (''piht'', PyInt 2)] =
     (Inl (BeartypeCallHintPepRaiseException (unrecognized_message ''piht'')), example_heap) \<and>
   ''pith'' \<in> set INIT_PARAM_NAMES \<and>
   hint_priv (example_heap ! 1) = Some (PyCallable ''str'') \<and>
   permute example_env example_heap 1 [(''pith'', PyInt 1)] =
     (Inr 6, example_heap @ [(example_heap ! 1)\<lparr>pith := PyInt 1\<rparr>])"
  using permute_unrecognized_iff
      [of "[(''pith'', PyInt 1), (''piht'', PyInt 2)]" example_env example_heap 1
          "PyCallable ''str''"]
    permute_unrecognized_iff
      [of "[(''pith'', PyInt 1)]" example_env example_heap 1 "PyCallable ''str''"]
  by (simp add: example_defs INIT_PARAM_NAMES_def kwarg_def CauseSleuth_init_def
      hint_setter_def)

text \<open>
  Being the name of a slot is not what is checked: \<open>hint_sign\<close> is a slot of every
  sleuth, and \<open>permute(hint_sign=...)\<close> raises.
\<close>

theorem permute_existing_field_counterexample:
  "''hint_sign'' \<in> set slots \<and>
   permute example_env example_heap 1 [(''hint_sign'', PySign ''List'')] =
     (Inl (BeartypeCallHintPepRaiseException (unrecognized_message ''hint_sign'')),
      example_heap)"
  by (simp add: slots_def permute_def INIT_PARAM_NAMES_def)

text \<open>
  C7. \<open>permute\<close> never writes the sleuth it is called on. For every heap, every live
  sleuth \<open>self\<close> and every keyword arguments, the object at \<open>self\<close> is the same before
  and after the call, whether the call returns or raises; so is every object that
  existed before the call, and the sleuth returned is never \<open>self\<close>.
\<close>

theorem permute_never_mutates:
  assumes "self < length h"
  shows "snd (permute e h self kwargs) ! self = h ! self \<and>
         take (length h) (snd (permute e h self kwargs)) = h \<and>
         fst (permute e h self kwargs) \<noteq> Inr self"
proof -
  obtain r h' where p: "permute e h self kwargs = (r, h')"
    by (cases "permute e h self kwargs")
  from permute_frame [OF p]
  have t: "take (length h) h' = h"
    and a: "\<forall>a. r = Inr a \<longrightarrow> a = length h \<and> length h' = Suc (length h)"
    by simp_all
  have "h' ! self = take (length h) h' ! self"
    using assms by simp
  with t have "h' ! self = h ! self" by simp
  moreover have "r \<noteq> Inr self" using a assms by auto
  ultimately show ?thesis using p t by simp
qed

theorem permute_never_mutates_witness:
  "(1::nat) < length example_heap \<and>
   snd (permute example_env example_heap 1 [(''pith'', PyInt 1)]) ! 1 = example_heap ! 1 \<and>
   snd (permute example_env example_heap 1 [(''piht'', PyInt 1)]) ! 1 = example_heap ! 1 \<and>
   snd (permute example_env example_heap 1 [(''func'', PyInt 1)]) ! 1 = example_heap ! 1 \<and>
   fst (permute example_env example_heap 1 [(''pith'', PyInt 1)]) = Inr 6"
  using permute_never_mutates [of 1 example_heap example_env "[(''pith'', PyInt 1)]"]
    permute_never_mutates [of 1 example_heap example_env "[(''piht'', PyInt 1)]"]
    permute_never_mutates [of 1 example_heap example_env "[(''func'', PyInt 1)]"]
    example_permute_pith
  by (simp add: example_heap_def)

text \<open>
  C8. The hint of a sleuth is normalised and then classified while the sleuth is
  constructed. Whenever the constructor returns a sleuth for the hint \<open>x\<close>, the
  normaliser returned a hint \<open>hint1\<close> for \<open>x\<close>, the slot \<open>_hint\<close> holds \<open>hint1\<close>, and
  \<open>hint_sign\<close> and \<open>hint_childs\<close> are the classification of \<open>hint1\<close>. The same holds
  for the sleuth that \<open>permute\<close> returns, where \<open>x\<close> is the hint passed or, if none was
  passed, the hint of the original sleuth.
\<close>

theorem hint_normalized_then_classified:
  "(CauseSleuth_init e h0 f p x ci ep ri = (Inr a0, h1)
    \<longrightarrow> (\<exists>hint1. sanify_hint_child e x ep = Inr hint1 \<and>
                 hint_priv (h1 ! a0) = Some hint1 \<and>
                 classified e hint1 (h1 ! a0))) \<and>
   (permute e h self kwargs = (Inr a, h')
    \<longrightarrow> (\<exists>hint0 hint1.
           (map_of kwargs ''hint'' = Some hint0 \<or>
            map_of kwargs ''hint'' = None \<and> hint_priv (h ! self) = Some hint0) \<and>
           sanify_hint_child e hint0 (exception_prefix (h' ! a)) = Inr hint1 \<and>
           hint_priv (h' ! a) = Some hint1 \<and>
           classified e hint1 (h' ! a)))"
proof (rule conjI; rule impI)
  assume "CauseSleuth_init e h0 f p x ci ep ri = (Inr a0, h1)"
  from CauseSleuth_init_object [OF this]
  show "\<exists>hint1. sanify_hint_child e x ep = Inr hint1 \<and>
                 hint_priv (h1 ! a0) = Some hint1 \<and>
                 classified e hint1 (h1 ! a0)"
    by blast
next
  assume p: "permute e h self kwargs = (Inr a, h')"
  from permute_success [OF p] obtain hint1 where
    names: "\<forall>n \<in> set (map fst kwargs). n \<in> set INIT_PARAM_NAMES"
    and hint: "''hint'' \<in> set (map fst kwargs) \<or> hint_priv (h ! self) = Some hint1"
    by blast
  define hint0 where "hint0 = kwarg kwargs ''hint'' hint1"
  have src: "map_of kwargs ''hint'' = Some hint0 \<or>
            map_of kwargs ''hint'' = None \<and> hint_priv (h ! self) = Some hint0"
    using hint by (auto simp: hint0_def kwarg_def map_of_eq_None_iff split: option.splits)
  from permute_recognized [OF names hint, of e] p
  have "CauseSleuth_init e h
             (kwarg kwargs ''func'' (func (h ! self)))
             (kwarg kwargs ''pith'' (pith (h ! self)))
             hint0
             (kwarg kwargs ''cause_indent'' (cause_indent (h ! self)))
             (kwarg kwargs ''exception_prefix'' (exception_prefix (h ! self)))
             (kwarg kwargs ''random_int'' (random_int (h ! self))) = (Inr a, h')"
    by (simp add: hint0_def)
  from CauseSleuth_init_object [OF this]
  have "\<exists>hint1. sanify_hint_child e hint0 (exception_prefix (h' ! a)) = Inr hint1 \<and>
           hint_priv (h' ! a) = Some hint1 \<and> classified e hint1 (h' ! a)"
    by auto
  with src show "\<exists>hint0 hint1.
           (map_of kwargs ''hint'' = Some hint0 \<or>
            map_of kwargs ''hint'' = None \<and> hint_priv (h ! self) = Some hint0) \<and>
           sanify_hint_child e hint0 (exception_prefix (h' ! a)) = Inr hint1 \<and>
           hint_priv (h' ! a) = Some hint1 \<and>
           classified e hint1 (h' ! a)"
    by blast
qed

theorem hint_normalized_then_classified_witness:
  "CauseSleuth_init example_env [] (PyCallable ''f'') (PyInt 42) (PyObject ''typing.List[int]'')
     (PyStr '''') (PyStr ''@beartyped f() parameter x'') PyNone =
     (Inr 0, [example_heap ! 4]) \<and>
   sanify_hint_child example_env (PyObject ''typing.List[int]'')
     (PyStr ''@beartyped f() parameter x'') = Inr (PyObject ''typing.List[int]'') \<and>
   hint_priv ([example_heap ! 4] ! 0) = Some (PyObject ''typing.List[int]'') \<and>
   classified example_env (PyObject ''typing.List[int]'') ([example_heap ! 4] ! 0) \<and>
   permute example_env example_heap 1 [(''hint'', PyObject ''typing.List[int]'')] =
     (Inr 6, example_heap @ [example_heap ! 4]) \<and>
   hint_priv ((example_heap @ [example_heap ! 4]) ! 6) = Some (PyObject ''typing.List[int]'') \<and>
   classified example_env (PyObject ''typing.List[int]'')
     ((example_heap @ [example_heap ! 4]) ! 6)"
  using hint_normalized_then_classified
    [of example_env "[]" "PyCallable ''f''" "PyInt 42" "PyObject ''typing.List[int]''"
        "PyStr ''''" "PyStr ''@beartyped f() parameter x''" PyNone 0 "[example_heap ! 4]"
        example_heap 1 "[(''hint'', PyObject ''typing.List[int]'')]" 6
        "example_heap @ [example_heap ! 4]"]
    example_init example_permute_hint
  by (simp add: example_defs classified_def)

text \<open>
  C9. In a newly constructed sleuth the sign and the arguments are both present or both
  absent: if the normalised hint is PEP-compliant, \<open>hint_sign\<close> is its sign and
  \<open>hint_childs\<close> the tuple of its arguments; otherwise both are \<open>None\<close>. So \<open>hint_sign\<close>
  is \<open>None\<close> exactly when the normalised hint is not PEP-compliant, and exactly when
  \<open>hint_childs\<close> is \<open>None\<close>.
\<close>

theorem init_sign_childs_jointly:
  assumes "CauseSleuth_init e h func0 pith0 hint0 cause_indent0 exception_prefix0 random_int0 =
      (Inr a, h')"
  shows "\<exists>hint1. hint_priv (h' ! a) = Some hint1 \<and>
           (if is_hint_pep e hint1
            then \<exists>sign0 args. get_hint_pep_sign e hint1 = Inr sign0 \<and>
                   get_hint_pep_args e hint1 = Inr args \<and>
                   hint_sign (h' ! a) = PySign sign0 \<and>
                   hint_childs (h' ! a) = PyTuple args
            else hint_sign (h' ! a) = PyNone \<and> hint_childs (h' ! a) = PyNone) \<and>
           (hint_sign (h' ! a) = PyNone \<longleftrightarrow> \<not> is_hint_pep e hint1) \<and>
           (hint_sign (h' ! a) = PyNone \<longleftrightarrow> hint_childs (h' ! a) = PyNone)"
proof -
  from CauseSleuth_init_object [OF assms] obtain hint1 where
    "hint_priv (h' ! a) = Some hint1" and "classified e hint1 (h' ! a)"
    by blast
  then show ?thesis
    by (auto simp: classified_def split: if_splits sum.splits)
qed

theorem init_sign_childs_jointly_witness:
  "CauseSleuth_init example_env [] (PyCallable ''f'') (PyInt 42) (PyObject ''typing.List[int]'')
     (PyStr '''') (PyStr ''@beartyped f() parameter x'') PyNone =
     (Inr 0, [example_heap ! 4]) \<and>
   is_hint_pep example_env (PyObject ''typing.List[int]'') \<and>
   hint_sign ([example_heap ! 4] ! 0) = PySign ''List'' \<and>
   hint_childs ([example_heap ! 4] ! 0) = PyTuple [PyCallable ''int''] \<and>
   CauseSleuth_init example_env [] (PyCallable ''f'') (PyInt 42) (PyCallable ''str'')
     (PyStr '''') (PyStr ''@beartyped f() parameter x'') PyNone =
     (Inr 0, [example_heap ! 1]) \<and>
   \<not> is_hint_pep example_env (PyCallable ''str'') \<and>
   hint_sign ([example_heap ! 1] ! 0) = PyNone \<and>
   hint_childs ([example_heap ! 1] ! 0) = PyNone"
  using init_sign_childs_jointly [OF example_init] init_sign_childs_jointly [OF example_init_untagged]
    example_init example_init_untagged
  by (simp add: example_defs)

text \<open>
  C10. The names \<open>permute\<close> accepts are the parameter names of \<open>__init__\<close>, not the
  slots. \<open>hint\<close> is accepted although no slot has that name (the slot is \<open>_hint\<close>):
  \<open>permute(hint=v)\<close> is the call of the constructor on \<open>v\<close> and the current values of
  the other five parameters. \<open>hint_sign\<close>, \<open>hint_childs\<close> and \<open>_hint\<close> are slots, and
  \<open>permute\<close> raises \<open>_BeartypeCallHintPepRaiseException\<close> for each of them.
\<close>

theorem permute_init_param_names:
  "''hint'' \<in> set INIT_PARAM_NAMES \<and> ''hint'' \<notin> set slots \<and>
   ''_hint'' \<in> set slots \<and> ''_hint'' \<notin> set INIT_PARAM_NAMES \<and>
   ''hint_sign'' \<in> set slots \<and> ''hint_childs'' \<in> set slots \<and>
   permute e h self [(''hint'', v)] =
     CauseSleuth_init e h (func (h ! self)) (pith (h ! self)) v (cause_indent (h ! self))
       (exception_prefix (h ! self)) (random_int (h ! self)) \<and>
   permute e h self [(''_hint'', v)] =
     (Inl (BeartypeCallHintPepRaiseException (unrecognized_message ''_hint'')), h) \<and>
   permute e h self [(''hint_sign'', v)] =
     (Inl (BeartypeCallHintPepRaiseException (unrecognized_message ''hint_sign'')), h) \<and>
   permute e h self [(''hint_childs'', v)] =
     (Inl (BeartypeCallHintPepRaiseException (unrecognized_message ''hint_childs'')), h)"
proof -
  have names: "\<forall>n \<in> set (map fst [(''hint'', v)]). n \<in> set INIT_PARAM_NAMES"
    by (simp add: INIT_PARAM_NAMES_def)
  have "permute e h self [(''hint'', v)] =
     CauseSleuth_init e h (func (h ! self)) (pith (h ! self)) v (cause_indent (h ! self))
       (exception_prefix (h ! self)) (random_int (h ! self))"
    using permute_recognized [OF names, of h self v e] by (simp add: kwarg_def)
  moreover have "permute e h self [(n, v)] =
     (Inl (BeartypeCallHintPepRaiseException (unrecognized_message n)), h)"
    if "n \<notin> set INIT_PARAM_NAMES" for n
    using that by (simp add: permute_def)
  ultimately show ?thesis
    by (simp add: INIT_PARAM_NAMES_def slots_def)
qed

theorem permute_init_param_names_witness:
  "permute example_env example_heap 1 [(''hint'', PyObject ''typing.List[int]'')] =
     (Inr 6, example_heap @ [example_heap ! 4]) \<and>
   permute example_env example_heap 1 [(''hint_sign'', PySign ''List'')] =
     (Inl (BeartypeCallHintPepRaiseException (unrecognized_message ''hint_sign'')),
      example_heap) \<and>
   permute example_env example_heap 1 [(''hint_childs'', PyTuple [])] =
     (Inl (BeartypeCallHintPepRaiseException (unrecognized_message ''hint_childs'')),
      example_heap)"
  using permute_init_param_names
      [of example_env example_heap 1 "PyObject ''typing.List[int]''"]
    permute_init_param_names [of example_env example_heap 1 "PySign ''List''"]
    permute_init_param_names [of example_env example_heap 1 "PyTuple []"]
    example_permute_hint
  by simp

end
